theory Spec2Isabelle
  imports Main
begin

section \<open>Values stored in the table\<close>

text \<open>
  The module \<^verbatim>\<open>schemas/LabelCheckerColumns.py\<close> binds one global,
  \<^verbatim>\<open>column_name_types\<close>, to a dict display. Its values are of two shapes:
  \<^verbatim>\<open>pd.ArrowDtype(pa.T())\<close> for a pyarrow type \<open>T\<close>, and a bare Python string.
\<close>

datatype pa_type = pa_string | pa_float32 | pa_uint64

datatype dtype = ArrowDtype pa_type | StrLit string

text \<open>\<^verbatim>\<open>isinstance(value, pd.ArrowDtype)\<close>\<close>

fun isinstance_ArrowDtype :: "dtype \<Rightarrow> bool" where
  "isinstance_ArrowDtype (ArrowDtype t) = True"
| "isinstance_ArrowDtype (StrLit s) = False"

section \<open>Python dicts\<close>

text \<open>
  A dict keeps its items in insertion order, so it is an association list with pairwise
  distinct keys. Storing under a key that is present replaces the value in place; storing
  under a new key appends the item. A dict display stores its items from left to right
  into an empty dict.
\<close>

type_synonym schema = "(string \<times> dtype) list"

fun dict_setitem :: "schema \<Rightarrow> string \<Rightarrow> dtype \<Rightarrow> schema" where
  "dict_setitem [] k v = [(k, v)]"
| "dict_setitem ((k', v') # d) k v =
     (if k' = k then (k', v) # d else (k', v') # dict_setitem d k v)"

definition dict_display :: "(string \<times> dtype) list \<Rightarrow> schema" where
  "dict_display kvs = foldl (\<lambda>d (k, v). dict_setitem d k v) [] kvs"

text \<open>Subscription \<^verbatim>\<open>d[k]\<close> raises \<^verbatim>\<open>KeyError(k)\<close> when the key is absent.\<close>

datatype key_error = KeyError string

definition dict_getitem :: "schema \<Rightarrow> string \<Rightarrow> key_error + dtype" where
  "dict_getitem d k = (case map_of d k of None \<Rightarrow> Inl (KeyError k) | Some v \<Rightarrow> Inr v)"

definition dict_items :: "schema \<Rightarrow> (string \<times> dtype) list" where
  "dict_items d = d"

definition dict_keys :: "schema \<Rightarrow> string list" where
  "dict_keys d = map fst d"

section \<open>The schema table\<close>

text \<open>The items of the dict display, in the order of the source file (lines 5 to 84).\<close>

definition column_entries :: "(string \<times> dtype) list" where
  "column_entries =
    [
     (''Name'', ArrowDtype pa_string),
     (''AbdArea'', ArrowDtype pa_float32),
     (''FilledArea'', ArrowDtype pa_float32),
     (''AspectRatio'', ArrowDtype pa_float32),
     (''AvgBlue'', ArrowDtype pa_float32),
     (''AvgGreen'', ArrowDtype pa_float32),
     (''AvgRed'', ArrowDtype pa_float32),
     (''BiovolumeCylinder'', ArrowDtype pa_float32),
     (''BiovolumePSpheroid'', ArrowDtype pa_float32),
     (''BiovolumeSphere'', ArrowDtype pa_float32),
     (''CalConst'', ArrowDtype pa_float32),
     (''CalImage'', ArrowDtype pa_uint64),
     (''Ch1Area'', ArrowDtype pa_float32),
     (''Ch1Peak'', ArrowDtype pa_float32),
     (''Ch1Width'', ArrowDtype pa_float32),
     (''Ch2Area'', ArrowDtype pa_float32),
     (''Ch2Peak'', ArrowDtype pa_float32),
     (''Ch2Width'', ArrowDtype pa_float32),
     (''Ch2Ch1Ratio'', ArrowDtype pa_float32),
     (''CircleFit'', ArrowDtype pa_float32),
     (''Circularity'', ArrowDtype pa_float32),
     (''CircularityHu'', ArrowDtype pa_float32),
     (''CollageFile'', ArrowDtype pa_string),
     (''Compactness'', ArrowDtype pa_float32),
     (''ConvexPerimeter'', ArrowDtype pa_float32),
     (''Convexity'', ArrowDtype pa_float32),
     (''Date'', StrLit ''Datetime64[pyarrow]''),
     (''AbdDiameter'', ArrowDtype pa_float32),
     (''EsdDiameter'', ArrowDtype pa_float32),
     (''FdDiameter'', ArrowDtype pa_float32),
     (''EdgeGradient'', ArrowDtype pa_float32),
     (''ElapsedTime'', ArrowDtype pa_float32),
     (''Elongation'', ArrowDtype pa_float32),
     (''FeretMaxAngle'', ArrowDtype pa_float32),
     (''FeretMinAngle'', ArrowDtype pa_float32),
     (''FiberCurl'', ArrowDtype pa_float32),
     (''FiberStraightness'', ArrowDtype pa_float32),
     (''FilterScore'', ArrowDtype pa_float32),
     (''GeodesicAspectRatio'', ArrowDtype pa_float32),
     (''GeodesicLength'', ArrowDtype pa_float32),
     (''GeodesicThickness'', ArrowDtype pa_float32),
     (''GroupId'', ArrowDtype pa_uint64),
     (''Id'', ArrowDtype pa_uint64),
     (''ImageFilename'', ArrowDtype pa_string),
     (''ImageX'', ArrowDtype pa_uint64),
     (''ImageY'', ArrowDtype pa_uint64),
     (''ImageH'', ArrowDtype pa_uint64),
     (''ImageW'', ArrowDtype pa_uint64),
     (''Intensity'', ArrowDtype pa_float32),
     (''Length'', ArrowDtype pa_float32),
     (''Ppc'', ArrowDtype pa_uint64),
     (''Perimeter'', ArrowDtype pa_float32),
     (''RatioBlueGreen'', ArrowDtype pa_float32),
     (''RatioRedBlue'', ArrowDtype pa_float32),
     (''RatioRedGreen'', ArrowDtype pa_float32),
     (''Roughness'', ArrowDtype pa_float32),
     (''SigmaIntensity'', ArrowDtype pa_float32),
     (''SrcImage'', ArrowDtype pa_uint64),
     (''SrcX'', ArrowDtype pa_uint64),
     (''SrcY'', ArrowDtype pa_uint64),
     (''SphereComplement'', ArrowDtype pa_uint64),
     (''SphereCount'', ArrowDtype pa_uint64),
     (''SphereUnknown'', ArrowDtype pa_uint64),
     (''SphereVolume'', ArrowDtype pa_float32),
     (''SumIntensity'', ArrowDtype pa_uint64),
     (''Symmetry'', ArrowDtype pa_float32),
     (''Time'', StrLit ''Datetime64[pyarrow]''),
     (''Timestamp'', StrLit ''Datetime64[pyarrow]''),
     (''Transparency'', ArrowDtype pa_float32),
     (''Uuid'', ArrowDtype pa_string),
     (''AbdVolume'', ArrowDtype pa_float32),
     (''EsdVolume'', ArrowDtype pa_float32),
     (''Width'', ArrowDtype pa_float32),
     (''BiovolumeHSosik'', ArrowDtype pa_float32),
     (''SurfaceAreaHSosik'', ArrowDtype pa_float32),
     (''Preprocessing'', ArrowDtype pa_string),
     (''PreprocessingTrue'', ArrowDtype pa_string),
     (''ProbabilityScore'', ArrowDtype pa_float32),
     (''LabelPredicted'', ArrowDtype pa_string),
     (''LabelTrue'', ArrowDtype pa_string)
    ]"

definition column_name_types :: schema where
  "column_name_types = dict_display column_entries"

section \<open>The public contract\<close>

text \<open>
  The specification presents every stored value as one of four type tags. The three
  pyarrow types map to their tags; the string literal \<^verbatim>\<open>"Datetime64[pyarrow]"\<close> is the
  datetime tag, and no other string is a tag.
\<close>

datatype type_tag = Float32 | UInt64 | Utf8String | Datetime

fun type_tag_of :: "dtype \<Rightarrow> type_tag option" where
  "type_tag_of (ArrowDtype pa_float32) = Some Float32"
| "type_tag_of (ArrowDtype pa_uint64) = Some UInt64"
| "type_tag_of (ArrowDtype pa_string) = Some Utf8String"
| "type_tag_of (StrLit s) = (if s = ''Datetime64[pyarrow]'' then Some Datetime else None)"

text \<open>
  \<open>Lookup\<close> is subscription of the table, \<^verbatim>\<open>column_name_types[name]\<close>; the
  specification calls its absent-key error \<^verbatim>\<open>UnknownColumnError\<close>. \<open>Enumerate\<close> is
  \<^verbatim>\<open>column_name_types.items()\<close>.
\<close>

definition Lookup :: "string \<Rightarrow> key_error + dtype" where
  "Lookup name = dict_getitem column_name_types name"

definition Enumerate :: "(string \<times> dtype) list" where
  "Enumerate = dict_items column_name_types"






section \<open>The reference of the specification\<close>

text \<open>The full column list of section 6 of the specification, in its order.\<close>

definition spec_column_list :: "string list" where
  "spec_column_list =
    [
     ''Name'', ''AbdArea'', ''FilledArea'', ''AspectRatio'', ''AvgBlue'', ''AvgGreen'',
     ''AvgRed'', ''BiovolumeCylinder'', ''BiovolumePSpheroid'', ''BiovolumeSphere'',
     ''CalConst'', ''CalImage'', ''Ch1Area'', ''Ch1Peak'', ''Ch1Width'', ''Ch2Area'',
     ''Ch2Peak'', ''Ch2Width'', ''Ch2Ch1Ratio'', ''CircleFit'', ''Circularity'',
     ''CircularityHu'', ''CollageFile'', ''Compactness'', ''ConvexPerimeter'',
     ''Convexity'', ''Date'', ''AbdDiameter'', ''EsdDiameter'', ''FdDiameter'',
     ''EdgeGradient'', ''ElapsedTime'', ''Elongation'', ''FeretMaxAngle'',
     ''FeretMinAngle'', ''FiberCurl'', ''FiberStraightness'', ''FilterScore'',
     ''GeodesicAspectRatio'', ''GeodesicLength'', ''GeodesicThickness'', ''GroupId'',
     ''Id'', ''ImageFilename'', ''ImageX'', ''ImageY'', ''ImageH'', ''ImageW'',
     ''Intensity'', ''Length'', ''Ppc'', ''Perimeter'', ''RatioBlueGreen'',
     ''RatioRedBlue'', ''RatioRedGreen'', ''Roughness'', ''SigmaIntensity'', ''SrcImage'',
     ''SrcX'', ''SrcY'', ''SphereComplement'', ''SphereCount'', ''SphereUnknown'',
     ''SphereVolume'', ''SumIntensity'', ''Symmetry'', ''Time'', ''Timestamp'',
     ''Transparency'', ''Uuid'', ''AbdVolume'', ''EsdVolume'', ''Width'',
     ''BiovolumeHSosik'', ''SurfaceAreaHSosik'', ''Preprocessing'', ''PreprocessingTrue'',
     ''ProbabilityScore'', ''LabelPredicted'', ''LabelTrue''
    ]"

text \<open>
  The reference name-to-type mapping. Section 6 gives the datetime columns in full and
  section 8 the uint64 columns in full; the string row of section 6 names seven columns
  before its ellipsis and \<open>PreprocessingTrue\<close> is the eighth; every remaining column of
  the list is a float32 measurement.
\<close>

definition spec_reference :: "(string \<times> type_tag) list" where
  "spec_reference =
    [
     (''Name'', Utf8String), (''AbdArea'', Float32), (''FilledArea'', Float32),
     (''AspectRatio'', Float32), (''AvgBlue'', Float32), (''AvgGreen'', Float32),
     (''AvgRed'', Float32), (''BiovolumeCylinder'', Float32),
     (''BiovolumePSpheroid'', Float32), (''BiovolumeSphere'', Float32),
     (''CalConst'', Float32), (''CalImage'', UInt64), (''Ch1Area'', Float32),
     (''Ch1Peak'', Float32), (''Ch1Width'', Float32), (''Ch2Area'', Float32),
     (''Ch2Peak'', Float32), (''Ch2Width'', Float32), (''Ch2Ch1Ratio'', Float32),
     (''CircleFit'', Float32), (''Circularity'', Float32), (''CircularityHu'', Float32),
     (''CollageFile'', Utf8String), (''Compactness'', Float32),
     (''ConvexPerimeter'', Float32), (''Convexity'', Float32), (''Date'', Datetime),
     (''AbdDiameter'', Float32), (''EsdDiameter'', Float32), (''FdDiameter'', Float32),
     (''EdgeGradient'', Float32), (''ElapsedTime'', Float32), (''Elongation'', Float32),
     (''FeretMaxAngle'', Float32), (''FeretMinAngle'', Float32), (''FiberCurl'', Float32),
     (''FiberStraightness'', Float32), (''FilterScore'', Float32),
     (''GeodesicAspectRatio'', Float32), (''GeodesicLength'', Float32),
     (''GeodesicThickness'', Float32), (''GroupId'', UInt64), (''Id'', UInt64),
     (''ImageFilename'', Utf8String), (''ImageX'', UInt64), (''ImageY'', UInt64),
     (''ImageH'', UInt64), (''ImageW'', UInt64), (''Intensity'', Float32),
     (''Length'', Float32), (''Ppc'', UInt64), (''Perimeter'', Float32),
     (''RatioBlueGreen'', Float32), (''RatioRedBlue'', Float32),
     (''RatioRedGreen'', Float32), (''Roughness'', Float32), (''SigmaIntensity'', Float32),
     (''SrcImage'', UInt64), (''SrcX'', UInt64), (''SrcY'', UInt64),
     (''SphereComplement'', UInt64), (''SphereCount'', UInt64), (''SphereUnknown'', UInt64),
     (''SphereVolume'', Float32), (''SumIntensity'', UInt64), (''Symmetry'', Float32),
     (''Time'', Datetime), (''Timestamp'', Datetime), (''Transparency'', Float32),
     (''Uuid'', Utf8String), (''AbdVolume'', Float32), (''EsdVolume'', Float32),
     (''Width'', Float32), (''BiovolumeHSosik'', Float32), (''SurfaceAreaHSosik'', Float32),
     (''Preprocessing'', Utf8String), (''PreprocessingTrue'', Utf8String),
     (''ProbabilityScore'', Float32), (''LabelPredicted'', Utf8String),
     (''LabelTrue'', Utf8String)
    ]"

definition spec_uint64_columns :: "string list" where
  "spec_uint64_columns =
    [
     ''CalImage'', ''GroupId'', ''Id'', ''ImageX'', ''ImageY'', ''ImageH'', ''ImageW'',
     ''Ppc'', ''SrcImage'', ''SrcX'', ''SrcY'', ''SphereComplement'', ''SphereCount'',
     ''SphereUnknown'', ''SumIntensity''
    ]"

definition spec_datetime_columns :: "string list" where
  "spec_datetime_columns = [''Date'', ''Time'', ''Timestamp'']"

definition spec_string_columns :: "string list" where
  "spec_string_columns =
    [''Name'', ''CollageFile'', ''ImageFilename'', ''Uuid'', ''Preprocessing'',
     ''PreprocessingTrue'', ''LabelPredicted'', ''LabelTrue'']"

section \<open>Facts about dicts\<close>

lemma dict_setitem_fresh:
  "k \<notin> fst ` set d \<Longrightarrow> dict_setitem d k v = d @ [(k, v)]"
  by (induction d) auto

lemma foldl_setitem_distinct:
  "distinct (map fst (d @ kvs)) \<Longrightarrow>
   foldl (\<lambda>d (k, v). dict_setitem d k v) d kvs = d @ kvs"
proof (induction kvs arbitrary: d)
  case Nil
  show ?case by simp
next
  case (Cons kv kvs)
  obtain k v where kv: "kv = (k, v)" by (cases kv)
  from Cons.prems kv have fresh: "k \<notin> fst ` set d" by auto
  from Cons.prems kv have "distinct (map fst ((d @ [(k, v)]) @ kvs))" by simp
  from Cons.IH [OF this] show ?case
    by (simp add: kv dict_setitem_fresh [OF fresh])
qed

lemma dict_display_distinct:
  "distinct (map fst kvs) \<Longrightarrow> dict_display kvs = kvs"
  unfolding dict_display_def using foldl_setitem_distinct [of "[]" kvs] by simp

lemma dict_getitem_Inr: "(dict_getitem d k = Inr v) = (map_of d k = Some v)"
  by (simp add: dict_getitem_def split: option.splits)

lemma dict_getitem_Inl: "(dict_getitem d k = Inl e) = (map_of d k = None \<and> e = KeyError k)"
  by (auto simp: dict_getitem_def split: option.splits)

lemma dict_getitem_present:
  "distinct (map fst d) \<Longrightarrow> (dict_getitem d k = Inr v) = ((k, v) \<in> set d)"
  by (simp add: dict_getitem_Inr)

lemma dict_getitem_absent:
  "(dict_getitem d k = Inl e) = (k \<notin> fst ` set d \<and> e = KeyError k)"
  by (simp add: dict_getitem_Inl map_of_eq_None_iff)

section \<open>Facts about the table\<close>

lemma column_entries_distinct: "distinct (map fst column_entries)"
  unfolding column_entries_def by simp

lemma column_name_types_items: "column_name_types = column_entries"
  unfolding column_name_types_def
  by (rule dict_display_distinct [OF column_entries_distinct])

lemma Enumerate_items: "Enumerate = column_entries"
  by (simp add: Enumerate_def dict_items_def column_name_types_items)

lemma Lookup_present: "(Lookup n = Inr v) = ((n, v) \<in> set column_entries)"
  unfolding Lookup_def column_name_types_items
  by (rule dict_getitem_present [OF column_entries_distinct])

lemma Lookup_absent:
  "(Lookup n = Inl e) = (n \<notin> fst ` set column_entries \<and> e = KeyError n)"
  unfolding Lookup_def column_name_types_items by (rule dict_getitem_absent)

lemma column_entries_keys: "map fst column_entries = spec_column_list"
  unfolding column_entries_def spec_column_list_def by simp

lemma column_entries_tags:
  "map (\<lambda>(n, v). (n, type_tag_of v)) column_entries =
   map (\<lambda>(n, t). (n, Some t)) spec_reference"
  unfolding column_entries_def spec_reference_def by simp

lemma column_entries_length: "length column_entries = 80"
  unfolding column_entries_def by simp

lemma column_entries_values:
  "\<forall>p \<in> set column_entries.
     snd p \<in> {ArrowDtype pa_float32, ArrowDtype pa_uint64, ArrowDtype pa_string,
              StrLit ''Datetime64[pyarrow]''}"
  unfolding column_entries_def by simp

lemma column_entries_shapes:
  "\<forall>p \<in> set column_entries.
     (fst p \<in> {''Date'', ''Time'', ''Timestamp''} \<longrightarrow> snd p = StrLit ''Datetime64[pyarrow]'') \<and>
     (fst p \<notin> {''Date'', ''Time'', ''Timestamp''} \<longrightarrow> isinstance_ArrowDtype (snd p))"
  unfolding column_entries_def by simp

lemma tagged_names:
  "{n. \<exists>v. Lookup n = Inr v \<and> type_tag_of v = Some t} =
   set (map fst (filter (\<lambda>(n, v). type_tag_of v = Some t) column_entries))"
  by (force simp: Lookup_present)

lemma tagged_distinct:
  "distinct (map fst (filter (\<lambda>(n, v). type_tag_of v = Some t) column_entries))"
  by (rule distinct_map_filter [OF column_entries_distinct])

lemma uint64_entries:
  "map fst (filter (\<lambda>(n, v). type_tag_of v = Some UInt64) column_entries) = spec_uint64_columns"
  unfolding column_entries_def spec_uint64_columns_def by simp

lemma datetime_entries:
  "map fst (filter (\<lambda>(n, v). type_tag_of v = Some Datetime) column_entries) =
   spec_datetime_columns"
  unfolding column_entries_def spec_datetime_columns_def by simp

lemma string_entries:
  "map fst (filter (\<lambda>(n, v). type_tag_of v = Some Utf8String) column_entries) =
   spec_string_columns"
  unfolding column_entries_def spec_string_columns_def by simp

lemma float32_entries:
  "length (filter (\<lambda>(n, v). type_tag_of v = Some Float32) column_entries) = 54"
  unfolding column_entries_def by simp

lemma arrow_entries:
  "length (filter (\<lambda>(n, v). isinstance_ArrowDtype v) column_entries) = 77"
  unfolding column_entries_def by simp




lemma entry_tag_in_reference:
  "((n, t) \<in> set spec_reference) =
   (\<exists>v. (n, v) \<in> set column_entries \<and> type_tag_of v = Some t)"
proof -
  have "((n, t) \<in> set spec_reference) =
        ((n, Some t) \<in> set (map (\<lambda>(n, t). (n, Some t)) spec_reference))"
    by force
  also have "\<dots> = ((n, Some t) \<in> set (map (\<lambda>(n, v). (n, type_tag_of v)) column_entries))"
    by (simp only: column_entries_tags)
  also have "\<dots> = (\<exists>v. (n, v) \<in> set column_entries \<and> type_tag_of v = Some t)"
    by force
  finally show ?thesis .
qed

lemma key_has_entry:
  "(n \<in> set (dict_keys column_name_types)) = (\<exists>v. (n, v) \<in> set column_entries)"
  by (force simp: dict_keys_def column_name_types_items)

section \<open>Lookup against the reference\<close>

text \<open>
  C1: the reference has one row for each of the 80 declared names, in the order of the
  table; the table read through the type tags is that reference, item by item; and so
  \<open>Lookup\<close> of a name of the reference returns a value whose tag is the reference's.
\<close>

theorem lookup_matches_reference:
  "length spec_reference = 80 \<and>
   map fst spec_reference = dict_keys column_name_types \<and>
   map (\<lambda>(n, v). (n, type_tag_of v)) Enumerate = map (\<lambda>(n, t). (n, Some t)) spec_reference \<and>
   ((n, t) \<in> set spec_reference \<longrightarrow> (\<exists>v. Lookup n = Inr v \<and> type_tag_of v = Some t))"
proof -
  have len: "length spec_reference = 80"
    unfolding spec_reference_def by simp
  have keys: "map fst spec_reference = dict_keys column_name_types"
    unfolding dict_keys_def column_name_types_items column_entries_keys
    unfolding spec_reference_def spec_column_list_def by simp
  have tags: "map (\<lambda>(n, v). (n, type_tag_of v)) Enumerate =
              map (\<lambda>(n, t). (n, Some t)) spec_reference"
    unfolding Enumerate_items by (rule column_entries_tags)
  have look: "(n, t) \<in> set spec_reference \<longrightarrow>
              (\<exists>v. Lookup n = Inr v \<and> type_tag_of v = Some t)"
    by (simp add: entry_tag_in_reference Lookup_present)
  from len keys tags look show ?thesis by blast
qed

theorem lookup_matches_reference_witness:
  "(''AbdArea'', Float32) \<in> set spec_reference \<and>
   (\<exists>v. Lookup ''AbdArea'' = Inr v \<and> type_tag_of v = Some Float32)"
proof -
  have h: "(''AbdArea'', Float32) \<in> set spec_reference"
    unfolding spec_reference_def by simp
  note a = lookup_matches_reference [of "''AbdArea''" Float32]
  note b = a [THEN conjunct2, THEN conjunct2, THEN conjunct2, THEN mp, OF h]
  show ?thesis
    by (rule conjI [OF h b])
qed

text \<open>
  C2: the names whose lookup returns a value tagged uint64 are exactly the fifteen names
  \<open>CalImage\<close>, \<open>GroupId\<close>, \<open>Id\<close>, \<open>ImageX\<close>, \<open>ImageY\<close>, \<open>ImageH\<close>, \<open>ImageW\<close>, \<open>Ppc\<close>,
  \<open>SrcImage\<close>, \<open>SrcX\<close>, \<open>SrcY\<close>, \<open>SphereComplement\<close>, \<open>SphereCount\<close>, \<open>SphereUnknown\<close>
  and \<open>SumIntensity\<close>.
\<close>

theorem uint64_columns_exact:
  "{n. \<exists>v. Lookup n = Inr v \<and> type_tag_of v = Some UInt64} =
     {''CalImage'', ''GroupId'', ''Id'', ''ImageX'', ''ImageY'', ''ImageH'', ''ImageW'', ''Ppc'',
      ''SrcImage'', ''SrcX'', ''SrcY'', ''SphereComplement'', ''SphereCount'',
      ''SphereUnknown'', ''SumIntensity''} \<and>
   card {n. \<exists>v. Lookup n = Inr v \<and> type_tag_of v = Some UInt64} = 15"
proof -
  have eq: "{n. \<exists>v. Lookup n = Inr v \<and> type_tag_of v = Some UInt64} = set spec_uint64_columns"
    by (simp only: tagged_names uint64_entries)
  have "distinct spec_uint64_columns"
    using tagged_distinct [of UInt64] by (simp only: uint64_entries)
  then have "card (set spec_uint64_columns) = length spec_uint64_columns"
    by (rule distinct_card)
  also have "\<dots> = 15"
    unfolding spec_uint64_columns_def by simp
  finally have "card (set spec_uint64_columns) = 15" .
  with eq show ?thesis
    unfolding spec_uint64_columns_def by simp
qed

text \<open>
  C3: \<open>Date\<close>, \<open>Time\<close> and \<open>Timestamp\<close> look up to a value tagged datetime; every other
  declared name looks up to a value tagged float32, uint64 or string.
\<close>

theorem datetime_columns:
  "(n \<in> {''Date'', ''Time'', ''Timestamp''} \<longrightarrow>
      (\<exists>v. Lookup n = Inr v \<and> type_tag_of v = Some Datetime)) \<and>
   (n \<in> set (dict_keys column_name_types) \<and> n \<notin> {''Date'', ''Time'', ''Timestamp''} \<longrightarrow>
      (\<exists>v. Lookup n = Inr v \<and> type_tag_of v \<in> {Some Float32, Some UInt64, Some Utf8String}))"
proof -
  have dt: "{n. \<exists>v. Lookup n = Inr v \<and> type_tag_of v = Some Datetime} =
            {''Date'', ''Time'', ''Timestamp''}"
    by (simp only: tagged_names datetime_entries) (simp add: spec_datetime_columns_def)
  have first: "n \<in> {''Date'', ''Time'', ''Timestamp''} \<longrightarrow>
               (\<exists>v. Lookup n = Inr v \<and> type_tag_of v = Some Datetime)"
    using dt by blast
  have second: "n \<in> set (dict_keys column_name_types) \<and>
                n \<notin> {''Date'', ''Time'', ''Timestamp''} \<longrightarrow>
                (\<exists>v. Lookup n = Inr v \<and>
                     type_tag_of v \<in> {Some Float32, Some UInt64, Some Utf8String})"
  proof
    assume a: "n \<in> set (dict_keys column_name_types) \<and>
               n \<notin> {''Date'', ''Time'', ''Timestamp''}"
    then obtain v where v: "(n, v) \<in> set column_entries"
      by (auto simp: key_has_entry)
    then have look: "Lookup n = Inr v"
      by (simp add: Lookup_present)
    from v column_entries_values
    have "v \<in> {ArrowDtype pa_float32, ArrowDtype pa_uint64, ArrowDtype pa_string,
               StrLit ''Datetime64[pyarrow]''}"
      by force
    moreover have "type_tag_of v \<noteq> Some Datetime"
      using dt look a by blast
    ultimately have "type_tag_of v \<in> {Some Float32, Some UInt64, Some Utf8String}"
      by auto
    with look show "\<exists>v. Lookup n = Inr v \<and>
                       type_tag_of v \<in> {Some Float32, Some UInt64, Some Utf8String}"
      by blast
  qed
  from first second show ?thesis by blast
qed

theorem datetime_columns_witness:
  "''Time'' \<in> {''Date'', ''Time'', ''Timestamp''} \<and>
   (\<exists>v. Lookup ''Time'' = Inr v \<and> type_tag_of v = Some Datetime) \<and>
   ''Width'' \<in> set (dict_keys column_name_types) \<and>
   ''Width'' \<notin> {''Date'', ''Time'', ''Timestamp''} \<and>
   (\<exists>v. Lookup ''Width'' = Inr v \<and>
        type_tag_of v \<in> {Some Float32, Some UInt64, Some Utf8String})"
proof -
  have h1: "''Time'' \<in> {''Date'', ''Time'', ''Timestamp''}" by simp
  have h2: "''Width'' \<in> set (dict_keys column_name_types)"
    unfolding dict_keys_def column_name_types_items column_entries_def by simp
  have h3: "''Width'' \<notin> {''Date'', ''Time'', ''Timestamp''}" by simp
  note a = datetime_columns [of "''Time''", THEN conjunct1, THEN mp, OF h1]
  note b = datetime_columns [of "''Width''", THEN conjunct2, THEN mp, OF conjI [OF h2 h3]]
  show ?thesis
    by (rule conjI [OF h1 conjI [OF a conjI [OF h2 conjI [OF h3 b]]]])
qed

section \<open>Enumeration\<close>

text \<open>
  C4: \<open>Enumerate\<close> yields exactly 80 items, and no name occurs in two of them.
\<close>

theorem enumerate_80_distinct:
  "length Enumerate = 80 \<and> distinct (map fst Enumerate)"
  unfolding Enumerate_items
  by (rule conjI [OF column_entries_length column_entries_distinct])

text \<open>
  C5: \<open>Enumerate\<close> yields the items in the order in which the dict display of the source
  lists them, and their names in that order are the full column list of section 6 of the
  specification: it starts with \<open>Name\<close>, \<open>AbdArea\<close>, \<open>FilledArea\<close> and ends with
  \<open>ProbabilityScore\<close>, \<open>LabelPredicted\<close>, \<open>LabelTrue\<close>.
\<close>

theorem enumerate_order:
  "Enumerate = column_entries \<and>
   map fst Enumerate = spec_column_list \<and>
   take 3 (map fst Enumerate) = [''Name'', ''AbdArea'', ''FilledArea''] \<and>
   drop 77 (map fst Enumerate) = [''ProbabilityScore'', ''LabelPredicted'', ''LabelTrue'']"
proof -
  have names: "map fst Enumerate = spec_column_list"
    unfolding Enumerate_items by (rule column_entries_keys)
  have front: "take 3 spec_column_list = [''Name'', ''AbdArea'', ''FilledArea'']"
    unfolding spec_column_list_def by simp
  have ending: "drop 77 spec_column_list = [''ProbabilityScore'', ''LabelPredicted'', ''LabelTrue'']"
    unfolding spec_column_list_def by simp
  from front ending show ?thesis
    unfolding names by (simp add: Enumerate_items)
qed

section \<open>Absent keys\<close>

text \<open>
  C6: \<open>Lookup\<close> of a name that is not a key of the table fails with the absent-key error
  (Python's \<^verbatim>\<open>KeyError\<close>, the specification's \<^verbatim>\<open>UnknownColumnError\<close>), for instance at
  \<open>NotAColumn\<close>; \<open>Lookup\<close> of a key of the table returns a value; and a failure of
  \<open>Lookup\<close> is always that error at a name that is not a key.
\<close>

theorem lookup_fails_only_on_absent:
  "(n \<notin> set (dict_keys column_name_types) \<longrightarrow> Lookup n = Inl (KeyError n)) \<and>
   (n \<in> set (dict_keys column_name_types) \<longrightarrow> (\<exists>v. Lookup n = Inr v)) \<and>
   (Lookup n = Inl e \<longrightarrow> e = KeyError n \<and> n \<notin> set (dict_keys column_name_types)) \<and>
   Lookup ''NotAColumn'' = Inl (KeyError ''NotAColumn'')"
proof -
  have keys: "set (dict_keys column_name_types) = fst ` set column_entries"
    by (simp add: dict_keys_def column_name_types_items)
  have absent: "n \<notin> set (dict_keys column_name_types) \<longrightarrow> Lookup n = Inl (KeyError n)"
    by (simp add: keys Lookup_absent)
  have present: "n \<in> set (dict_keys column_name_types) \<longrightarrow> (\<exists>v. Lookup n = Inr v)"
    by (simp add: key_has_entry Lookup_present)
  have failure: "Lookup n = Inl e \<longrightarrow> e = KeyError n \<and> n \<notin> set (dict_keys column_name_types)"
    by (simp add: keys Lookup_absent)
  have "''NotAColumn'' \<notin> fst ` set column_entries"
    unfolding column_entries_def by simp
  then have notacolumn: "Lookup ''NotAColumn'' = Inl (KeyError ''NotAColumn'')"
    by (simp add: Lookup_absent)
  show ?thesis
    by (rule conjI [OF absent conjI [OF present conjI [OF failure notacolumn]]])
qed

theorem lookup_fails_only_on_absent_witness:
  "''NotAColumn'' \<notin> set (dict_keys column_name_types) \<and>
   Lookup ''NotAColumn'' = Inl (KeyError ''NotAColumn'') \<and>
   ''Length'' \<in> set (dict_keys column_name_types) \<and>
   (\<exists>v. Lookup ''Length'' = Inr v)"
proof -
  have h1: "''NotAColumn'' \<notin> set (dict_keys column_name_types)"
    unfolding dict_keys_def column_name_types_items column_entries_def by simp
  have h2: "''Length'' \<in> set (dict_keys column_name_types)"
    unfolding dict_keys_def column_name_types_items column_entries_def by simp
  note a = lookup_fails_only_on_absent [of "''NotAColumn''", THEN conjunct1, THEN mp, OF h1]
  note b = lookup_fails_only_on_absent [of "''Length''", THEN conjunct2, THEN conjunct1,
      THEN mp, OF h2]
  show ?thesis
    by (rule conjI [OF h1 conjI [OF a conjI [OF h2 b]]])
qed

section \<open>Kinds of stored values\<close>

text \<open>
  C7: every value stored in the table is one of four values, \<^verbatim>\<open>pd.ArrowDtype\<close> of
  float32, of uint64 or of string, or the datetime literal, and so for every declared
  name the lookup returns a value whose type tag is float32, uint64, string or datetime.
\<close>

theorem values_four_kinds:
  "((n, v) \<in> set Enumerate \<longrightarrow>
      v \<in> {ArrowDtype pa_float32, ArrowDtype pa_uint64, ArrowDtype pa_string,
           StrLit ''Datetime64[pyarrow]''} \<and>
      type_tag_of v \<in> {Some Float32, Some UInt64, Some Utf8String, Some Datetime}) \<and>
   (n \<in> set (dict_keys column_name_types) \<longrightarrow>
      (\<exists>w. Lookup n = Inr w \<and>
           type_tag_of w \<in> {Some Float32, Some UInt64, Some Utf8String, Some Datetime}))"
proof -
  have kinds: "type_tag_of w \<in> {Some Float32, Some UInt64, Some Utf8String, Some Datetime}"
    if "w \<in> {ArrowDtype pa_float32, ArrowDtype pa_uint64, ArrowDtype pa_string,
              StrLit ''Datetime64[pyarrow]''}" for w
    using that by auto
  have stored: "w \<in> {ArrowDtype pa_float32, ArrowDtype pa_uint64, ArrowDtype pa_string,
                      StrLit ''Datetime64[pyarrow]''}"
    if "(m, w) \<in> set column_entries" for m w
    using that column_entries_values by force
  have first: "(n, v) \<in> set Enumerate \<longrightarrow>
      v \<in> {ArrowDtype pa_float32, ArrowDtype pa_uint64, ArrowDtype pa_string,
           StrLit ''Datetime64[pyarrow]''} \<and>
      type_tag_of v \<in> {Some Float32, Some UInt64, Some Utf8String, Some Datetime}"
    unfolding Enumerate_items using stored kinds by blast
  have second: "n \<in> set (dict_keys column_name_types) \<longrightarrow>
      (\<exists>w. Lookup n = Inr w \<and>
           type_tag_of w \<in> {Some Float32, Some UInt64, Some Utf8String, Some Datetime})"
  proof
    assume "n \<in> set (dict_keys column_name_types)"
    then obtain w where w: "(n, w) \<in> set column_entries"
      by (auto simp: key_has_entry)
    then have "Lookup n = Inr w"
      by (simp add: Lookup_present)
    moreover from w have
      "type_tag_of w \<in> {Some Float32, Some UInt64, Some Utf8String, Some Datetime}"
      by (rule kinds [OF stored])
    ultimately show "\<exists>w. Lookup n = Inr w \<and>
        type_tag_of w \<in> {Some Float32, Some UInt64, Some Utf8String, Some Datetime}"
      by blast
  qed
  show ?thesis
    by (rule conjI [OF first second])
qed

theorem values_four_kinds_witness:
  "(''Timestamp'', StrLit ''Datetime64[pyarrow]'') \<in> set Enumerate \<and>
   type_tag_of (StrLit ''Datetime64[pyarrow]'') \<in>
     {Some Float32, Some UInt64, Some Utf8String, Some Datetime} \<and>
   ''Uuid'' \<in> set (dict_keys column_name_types) \<and>
   (\<exists>w. Lookup ''Uuid'' = Inr w \<and>
        type_tag_of w \<in> {Some Float32, Some UInt64, Some Utf8String, Some Datetime})"
proof -
  have h1: "(''Timestamp'', StrLit ''Datetime64[pyarrow]'') \<in> set Enumerate"
    unfolding Enumerate_items column_entries_def by simp
  have h2: "''Uuid'' \<in> set (dict_keys column_name_types)"
    unfolding dict_keys_def column_name_types_items column_entries_def by simp
  note a = values_four_kinds [of "''Timestamp''" "StrLit ''Datetime64[pyarrow]''",
      THEN conjunct1, THEN mp, OF h1, THEN conjunct2]
  note b = values_four_kinds [of "''Uuid''", THEN conjunct2, THEN mp, OF h2]
  show ?thesis
    by (rule conjI [OF h1 conjI [OF a conjI [OF h2 b]]])
qed

section \<open>Reads, stores and the table\<close>




section \<open>Representation of the datetime entries\<close>

text \<open>
  C9: in an item of the table the value is the string \<^verbatim>\<open>"Datetime64[pyarrow]"\<close>, and so
  not an instance of \<^verbatim>\<open>pd.ArrowDtype\<close>, exactly when the key is \<open>Date\<close>, \<open>Time\<close> or
  \<open>Timestamp\<close>; the values of all other keys, 77 of them, are instances of
  \<^verbatim>\<open>pd.ArrowDtype\<close>; and every value, of either shape, has a type tag.
\<close>

theorem datetime_entries_are_string_literals:
  "((n, v) \<in> set Enumerate \<longrightarrow>
      (n \<in> {''Date'', ''Time'', ''Timestamp''} \<longrightarrow>
         v = StrLit ''Datetime64[pyarrow]'' \<and> \<not> isinstance_ArrowDtype v) \<and>
      (n \<notin> {''Date'', ''Time'', ''Timestamp''} \<longrightarrow> isinstance_ArrowDtype v) \<and>
      type_tag_of v \<noteq> None) \<and>
   length (filter (\<lambda>(n, v). isinstance_ArrowDtype v) Enumerate) = 77 \<and>
   length (filter (\<lambda>(n, v). \<not> isinstance_ArrowDtype v) Enumerate) = 3"
proof -
  have item: "(n, v) \<in> set Enumerate \<longrightarrow>
      (n \<in> {''Date'', ''Time'', ''Timestamp''} \<longrightarrow>
         v = StrLit ''Datetime64[pyarrow]'' \<and> \<not> isinstance_ArrowDtype v) \<and>
      (n \<notin> {''Date'', ''Time'', ''Timestamp''} \<longrightarrow> isinstance_ArrowDtype v) \<and>
      type_tag_of v \<noteq> None"
  proof
    assume "(n, v) \<in> set Enumerate"
    then have e: "(n, v) \<in> set column_entries"
      by (simp only: Enumerate_items)
    from e column_entries_shapes have
      s: "(n \<in> {''Date'', ''Time'', ''Timestamp''} \<longrightarrow> v = StrLit ''Datetime64[pyarrow]'') \<and>
          (n \<notin> {''Date'', ''Time'', ''Timestamp''} \<longrightarrow> isinstance_ArrowDtype v)"
      by force
    from e column_entries_values have
      "v \<in> {ArrowDtype pa_float32, ArrowDtype pa_uint64, ArrowDtype pa_string,
            StrLit ''Datetime64[pyarrow]''}"
      by force
    then have t: "type_tag_of v \<noteq> None"
      by auto
    from s have "n \<in> {''Date'', ''Time'', ''Timestamp''} \<longrightarrow>
                 v = StrLit ''Datetime64[pyarrow]'' \<and> \<not> isinstance_ArrowDtype v"
      by auto
    with s t show
      "(n \<in> {''Date'', ''Time'', ''Timestamp''} \<longrightarrow>
          v = StrLit ''Datetime64[pyarrow]'' \<and> \<not> isinstance_ArrowDtype v) \<and>
       (n \<notin> {''Date'', ''Time'', ''Timestamp''} \<longrightarrow> isinstance_ArrowDtype v) \<and>
       type_tag_of v \<noteq> None"
      by (intro conjI) (erule conjE, assumption)+
  qed
  have others: "length (filter (\<lambda>(n, v). \<not> isinstance_ArrowDtype v) column_entries) = 3"
    unfolding column_entries_def by simp
  from arrow_entries others have counts:
    "length (filter (\<lambda>(n, v). isinstance_ArrowDtype v) Enumerate) = 77 \<and>
     length (filter (\<lambda>(n, v). \<not> isinstance_ArrowDtype v) Enumerate) = 3"
    by (simp only: Enumerate_items)
  show ?thesis
    by (rule conjI [OF item counts])
qed

theorem datetime_entries_are_string_literals_witness:
  "(''Date'', StrLit ''Datetime64[pyarrow]'') \<in> set Enumerate \<and>
   ''Date'' \<in> {''Date'', ''Time'', ''Timestamp''} \<and>
   \<not> isinstance_ArrowDtype (StrLit ''Datetime64[pyarrow]'') \<and>
   (''Id'', ArrowDtype pa_uint64) \<in> set Enumerate \<and>
   ''Id'' \<notin> {''Date'', ''Time'', ''Timestamp''} \<and>
   isinstance_ArrowDtype (ArrowDtype pa_uint64)"
proof -
  have h1: "(''Date'', StrLit ''Datetime64[pyarrow]'') \<in> set Enumerate"
    unfolding Enumerate_items column_entries_def by simp
  have h2: "''Date'' \<in> {''Date'', ''Time'', ''Timestamp''}" by simp
  have h3: "(''Id'', ArrowDtype pa_uint64) \<in> set Enumerate"
    unfolding Enumerate_items column_entries_def by simp
  have h4: "''Id'' \<notin> {''Date'', ''Time'', ''Timestamp''}" by simp
  note a = datetime_entries_are_string_literals [of "''Date''" "StrLit ''Datetime64[pyarrow]''",
      THEN conjunct1, THEN mp, OF h1, THEN conjunct1, THEN mp, OF h2, THEN conjunct2]
  note b = datetime_entries_are_string_literals [of "''Id''" "ArrowDtype pa_uint64",
      THEN conjunct1, THEN mp, OF h3, THEN conjunct2, THEN conjunct1, THEN mp, OF h4]
  show ?thesis
    by (rule conjI [OF h1 conjI [OF h2 conjI [OF a conjI [OF h3 conjI [OF h4 b]]]]])
qed

section \<open>String and float32 columns\<close>

text \<open>
  C10: the names whose lookup returns a value tagged string are exactly the eight names
  \<open>Name\<close>, \<open>CollageFile\<close>, \<open>ImageFilename\<close>, \<open>Uuid\<close>, \<open>Preprocessing\<close>,
  \<open>PreprocessingTrue\<close>, \<open>LabelPredicted\<close> and \<open>LabelTrue\<close>; \<open>PreprocessingTrue\<close> is among
  them; and exactly 54 of the 80 names look up to a value tagged float32.
\<close>

theorem string_columns_exact:
  "{n. \<exists>v. Lookup n = Inr v \<and> type_tag_of v = Some Utf8String} =
     {''Name'', ''CollageFile'', ''ImageFilename'', ''Uuid'', ''Preprocessing'',
      ''PreprocessingTrue'', ''LabelPredicted'', ''LabelTrue''} \<and>
   card {n. \<exists>v. Lookup n = Inr v \<and> type_tag_of v = Some Utf8String} = 8 \<and>
   Lookup ''PreprocessingTrue'' = Inr (ArrowDtype pa_string) \<and>
   card {n. \<exists>v. Lookup n = Inr v \<and> type_tag_of v = Some Float32} = 54 \<and>
   length (dict_keys column_name_types) = 80"
proof -
  have eq: "{n. \<exists>v. Lookup n = Inr v \<and> type_tag_of v = Some Utf8String} =
            set spec_string_columns"
    by (simp only: tagged_names string_entries)
  have "distinct spec_string_columns"
    using tagged_distinct [of Utf8String] by (simp only: string_entries)
  then have "card (set spec_string_columns) = length spec_string_columns"
    by (rule distinct_card)
  also have "\<dots> = 8"
    unfolding spec_string_columns_def by simp
  finally have eight: "card (set spec_string_columns) = 8" .
  have strings: "{n. \<exists>v. Lookup n = Inr v \<and> type_tag_of v = Some Utf8String} =
     {''Name'', ''CollageFile'', ''ImageFilename'', ''Uuid'', ''Preprocessing'',
      ''PreprocessingTrue'', ''LabelPredicted'', ''LabelTrue''}"
    unfolding eq spec_string_columns_def by simp
  have count: "card {n. \<exists>v. Lookup n = Inr v \<and> type_tag_of v = Some Utf8String} = 8"
    unfolding eq by (rule eight)
  have "(''PreprocessingTrue'', ArrowDtype pa_string) \<in> set column_entries"
    unfolding column_entries_def by simp
  then have ptrue: "Lookup ''PreprocessingTrue'' = Inr (ArrowDtype pa_string)"
    by (simp only: Lookup_present)
  have "card {n. \<exists>v. Lookup n = Inr v \<and> type_tag_of v = Some Float32} =
        length (map fst (filter (\<lambda>(n, v). type_tag_of v = Some Float32) column_entries))"
    unfolding tagged_names by (rule distinct_card [OF tagged_distinct])
  then have floats: "card {n. \<exists>v. Lookup n = Inr v \<and> type_tag_of v = Some Float32} = 54"
    by (simp only: length_map float32_entries)
  have total: "length (dict_keys column_name_types) = 80"
    by (simp add: dict_keys_def column_name_types_items column_entries_length)
  show ?thesis
    by (rule conjI [OF strings conjI [OF count conjI [OF ptrue conjI [OF floats total]]]])
qed

end
